theory Spec2Isabelle
  imports Complex_Main "HOL-Library.Sublist"
begin

section \<open>JavaScript numbers\<close>

text \<open>
  The analyser computes with JavaScript numbers. A number is modelled as a rational, one
  of the two infinities, or \<open>NaN\<close>: what division by zero, arithmetic on a missing field
  and comparison with \<open>NaN\<close> do is kept as the language has it. The rounding of IEEE
  doubles is not modelled (finite arithmetic is exact), and the two zeros are one: the
  general properties below are stated in these operations, and a finite result is given
  as a number only at the inputs of the worked example.
\<close>

datatype jsnum = NaN | NInf | Fin rat | PInf

text \<open>A property of an object is a number or absent (\<open>undefined\<close>, here \<open>None\<close>).\<close>

type_synonym jsval = "jsnum option"

text \<open>\<open>ToNumber\<close>: an absent operand of an arithmetic operator or comparison is \<open>NaN\<close>.\<close>

fun to_num :: "jsval \<Rightarrow> jsnum" where
  "to_num None = NaN"
| "to_num (Some v) = v"

text \<open>\<open>ToBoolean\<close> on a number: \<open>0\<close> and \<open>NaN\<close> are falsy, as \<open>undefined\<close> is.\<close>

fun truthy_num :: "jsnum \<Rightarrow> bool" where
  "truthy_num NaN = False"
| "truthy_num (Fin r) = (r \<noteq> 0)"
| "truthy_num NInf = True"
| "truthy_num PInf = True"

fun truthy :: "jsval \<Rightarrow> bool" where
  "truthy None = False"
| "truthy (Some v) = truthy_num v"

fun is_neg :: "jsnum \<Rightarrow> bool" where
  "is_neg NInf = True"
| "is_neg (Fin r) = (r < 0)"
| "is_neg _ = False"

definition signed_inf :: "bool \<Rightarrow> jsnum" where
  "signed_inf neg = (if neg then NInf else PInf)"

fun js_neg :: "jsnum \<Rightarrow> jsnum" where
  "js_neg NaN = NaN"
| "js_neg NInf = PInf"
| "js_neg PInf = NInf"
| "js_neg (Fin r) = Fin (- r)"

fun js_add :: "jsnum \<Rightarrow> jsnum \<Rightarrow> jsnum" where
  "js_add NaN _ = NaN"
| "js_add _ NaN = NaN"
| "js_add (Fin a) (Fin b) = Fin (a + b)"
| "js_add PInf NInf = NaN"
| "js_add NInf PInf = NaN"
| "js_add PInf _ = PInf"
| "js_add _ PInf = PInf"
| "js_add NInf _ = NInf"
| "js_add _ NInf = NInf"

definition js_sub :: "jsnum \<Rightarrow> jsnum \<Rightarrow> jsnum" where
  "js_sub a b = js_add a (js_neg b)"

fun js_mul :: "jsnum \<Rightarrow> jsnum \<Rightarrow> jsnum" where
  "js_mul NaN _ = NaN"
| "js_mul _ NaN = NaN"
| "js_mul (Fin a) (Fin b) = Fin (a * b)"
| "js_mul a b =
     (if a = Fin 0 \<or> b = Fin 0 then NaN else signed_inf (is_neg a \<noteq> is_neg b))"

text \<open>
  Division never raises in JavaScript. The quotient by a divisor other than zero is
  \<open>js_div_guarded\<close>; at a zero divisor the language gives \<open>NaN\<close> for \<open>0 / 0\<close> and
  \<open>NaN / 0\<close>, and an infinity of the dividend's sign otherwise.
\<close>

fun js_quot :: "jsnum \<Rightarrow> jsnum \<Rightarrow> jsnum" where
  "js_quot NaN _ = NaN"
| "js_quot _ NaN = NaN"
| "js_quot (Fin a) (Fin b) = Fin (a / b)"
| "js_quot (Fin a) _ = Fin 0"
| "js_quot a (Fin b) = signed_inf (is_neg a \<noteq> (b < 0))"
| "js_quot _ _ = NaN"

definition js_div_guarded :: "jsnum \<Rightarrow> jsnum \<Rightarrow> jsnum option" where
  "js_div_guarded a b = (if b = Fin 0 then None else Some (js_quot a b))"

definition js_div :: "jsnum \<Rightarrow> jsnum \<Rightarrow> jsnum" where
  "js_div a b =
     (case js_div_guarded a b of
        Some q \<Rightarrow> q
      | None \<Rightarrow> (if a = NaN \<or> a = Fin 0 then NaN else signed_inf (is_neg a)))"

text \<open>\<open>a >= b\<close>: false as soon as one side is \<open>NaN\<close>.\<close>

fun js_ge :: "jsnum \<Rightarrow> jsnum \<Rightarrow> bool" where
  "js_ge NaN _ = False"
| "js_ge _ NaN = False"
| "js_ge (Fin a) (Fin b) = (b \<le> a)"
| "js_ge PInf _ = True"
| "js_ge _ NInf = True"
| "js_ge _ _ = False"

text \<open>\<open>Math.round\<close>: the nearest integer, halves rounded up.\<close>

fun math_round :: "jsnum \<Rightarrow> jsnum" where
  "math_round (Fin r) = Fin (of_int \<lfloor>r + 1 / 2\<rfloor>)"
| "math_round v = v"

text \<open>\<open>Math.min(...xs)\<close>: \<open>Infinity\<close> with no argument, \<open>NaN\<close> as soon as one is \<open>NaN\<close>.\<close>

definition min2 :: "jsnum \<Rightarrow> jsnum \<Rightarrow> jsnum" where
  "min2 a b = (if a = NaN \<or> b = NaN then NaN else if js_ge a b then b else a)"

definition math_min :: "jsnum list \<Rightarrow> jsnum" where
  "math_min xs = foldl min2 PInf xs"

section \<open>Arrays: sort and slice\<close>

text \<open>
  \<open>Array.prototype.sort(cmp)\<close> is the language's stable sort: \<open>a\<close> goes after \<open>b\<close>
  only where \<open>cmp(a, b) > 0\<close>, and a comparator result of \<open>NaN\<close> counts as \<open>0\<close>. It is
  modelled as stable insertion. Where the comparator is not a consistent order, which
  takes an absent or \<open>NaN\<close> key, the language leaves the order to the engine, and
  engines give another than insertion does: every property of the order of a sorted
  array is stated for keys that are numbers.
\<close>

fun positive :: "jsnum \<Rightarrow> bool" where
  "positive PInf = True"
| "positive (Fin r) = (0 < r)"
| "positive _ = False"

fun insert_sorted :: "('a \<Rightarrow> 'a \<Rightarrow> jsnum) \<Rightarrow> 'a \<Rightarrow> 'a list \<Rightarrow> 'a list" where
  "insert_sorted cmp x [] = [x]"
| "insert_sorted cmp x (y # ys) =
     (if positive (cmp x y) then y # insert_sorted cmp x ys else x # y # ys)"

definition array_sort :: "('a \<Rightarrow> 'a \<Rightarrow> jsnum) \<Rightarrow> 'a list \<Rightarrow> 'a list" where
  "array_sort cmp xs = foldr (insert_sorted cmp) xs []"

text \<open>\<open>xs.slice(0, n)\<close> for a count \<open>n\<close> is \<open>take n xs\<close>.\<close>

section \<open>Configuration\<close>

text \<open>The \<open>analysis\<close> block of the configuration module; the counts are naturals.\<close>

record analysis =
  minYieldThreshold :: rat
  heuristicRentPerSqft :: rat
  maxPropertiesToAnalyze :: nat
  topDealsCount :: nat
  propertyTaxRate :: rat
  vacancyRate :: rat
  managementFee :: rat

definition config :: analysis where
  "config = \<lparr> minYieldThreshold = 6, heuristicRentPerSqft = 1,
      maxPropertiesToAnalyze = 50, topDealsCount = 10,
      propertyTaxRate = 24 / 1000, vacancyRate = 8 / 100, managementFee = 10 / 100 \<rparr>"

section \<open>Listings\<close>

text \<open>
  A listing is the record of the listings API, then the fields the stages add. Every
  field can be absent. Numeric fields hold numbers; text fields hold strings.
\<close>

record listing =
  listing_id :: "string option"
  listingId :: "string option"
  addressLine1 :: "string option"
  formattedAddress :: "string option"
  city :: "string option"
  state :: "string option"
  zipCode :: "string option"
  price :: jsval
  bedrooms :: jsval
  bathrooms :: jsval
  squareFootage :: jsval
  yearBuilt :: jsval
  propertyType :: "string option"
  daysOnMarket :: jsval
  listingDate :: "string option"
  primaryPhoto :: "string option"
  photos :: "string list option"
  listingUrl :: "string option"
  marketId :: "string option"
  marketName :: "string option"
  heuristicYield :: jsval
  rentEstimate :: jsval
  rentRangeLow :: jsval
  rentRangeHigh :: jsval
  grossYield :: jsval
  monthlyCashFlow :: jsval
  annualRent :: jsval
  grm :: jsval
  meetsOnePercentRule :: "bool option"

section \<open>Metrics\<close>

text \<open>\<open>calculateGrossYield\<close>: \<open>0\<close> when the price is falsy, the percentage otherwise.\<close>

definition calculateGrossYield :: "jsnum \<Rightarrow> jsval \<Rightarrow> jsnum" where
  "calculateGrossYield annualRent' price' =
     (if \<not> truthy price' \<or> price' = Some (Fin 0) then Fin 0
      else js_mul (js_div annualRent' (to_num price')) (Fin 100))"

text \<open>
  \<open>calculateMonthlyCashFlow\<close>: the rent less taxes, vacancy and management; the
  buyer's financing is left out.
\<close>

definition calculateMonthlyCashFlow :: "analysis \<Rightarrow> jsval \<Rightarrow> jsval \<Rightarrow> jsnum" where
  "calculateMonthlyCashFlow cfg monthlyRent price' =
     (let annualTaxes = js_mul (to_num price') (Fin (propertyTaxRate cfg));
          monthlyTaxes = js_div annualTaxes (Fin 12);
          vacancyLoss = js_mul (to_num monthlyRent) (Fin (vacancyRate cfg));
          managementCost = js_mul (to_num monthlyRent) (Fin (managementFee cfg));
          estimatedExpenses = js_add (js_add monthlyTaxes vacancyLoss) managementCost
      in js_sub (to_num monthlyRent) estimatedExpenses)"

section \<open>The funnel\<close>

text \<open>
  Stage 1, \<open>applyHeuristicFilter\<close>. \<open>heuristicKeeps\<close> is the callback given to
  \<open>filter\<close>: a falsy price or square footage drops the listing, else the rent guessed
  from the square footage must yield at least the threshold.
\<close>

definition heuristicKeeps :: "analysis \<Rightarrow> listing \<Rightarrow> bool" where
  "heuristicKeeps cfg l =
     (if \<not> truthy (price l) \<or> \<not> truthy (squareFootage l) then False
      else
        let estimatedMonthlyRent = js_mul (to_num (squareFootage l)) (Fin (heuristicRentPerSqft cfg));
            estimatedAnnualRent = js_mul estimatedMonthlyRent (Fin 12);
            heuristicYield' = calculateGrossYield estimatedAnnualRent (price l)
        in js_ge heuristicYield' (Fin (minYieldThreshold cfg)))"

definition applyHeuristicFilter :: "analysis \<Rightarrow> listing list \<Rightarrow> listing list" where
  "applyHeuristicFilter cfg listings = filter (heuristicKeeps cfg) listings"

text \<open>
  The comparator \<open>(a, b) => b.key - a.key\<close> of both sorts.
\<close>

definition descending :: "('a \<Rightarrow> jsval) \<Rightarrow> 'a \<Rightarrow> 'a \<Rightarrow> jsnum" where
  "descending key a b = js_sub (to_num (key b)) (to_num (key a))"

text \<open>
  Stage 2, \<open>selectTopCandidates\<close>: the heuristic yield is computed again and attached,
  the listings are sorted on it, highest first, and cut to the cap.
\<close>

definition withHeuristicYield :: "analysis \<Rightarrow> listing \<Rightarrow> listing" where
  "withHeuristicYield cfg l =
     (let estimatedMonthlyRent = js_mul (to_num (squareFootage l)) (Fin (heuristicRentPerSqft cfg));
          heuristicYield' = calculateGrossYield (js_mul estimatedMonthlyRent (Fin 12)) (price l)
      in l\<lparr>heuristicYield := Some heuristicYield'\<rparr>)"

definition selectTopCandidates :: "analysis \<Rightarrow> listing list \<Rightarrow> listing list" where
  "selectTopCandidates cfg listings =
     take (maxPropertiesToAnalyze cfg)
       (array_sort (descending heuristicYield) (map (withHeuristicYield cfg) listings))"

text \<open>
  Stage 3, \<open>calculateInvestmentMetrics\<close>, on listings that carry a rent estimate.
\<close>

definition withMetrics :: "analysis \<Rightarrow> listing \<Rightarrow> listing" where
  "withMetrics cfg l =
     (let monthlyRent = rentEstimate l;
          annualRent' = js_mul (to_num monthlyRent) (Fin 12);
          grossYield' = calculateGrossYield annualRent' (price l);
          monthlyCashFlow' = calculateMonthlyCashFlow cfg monthlyRent (price l);
          grm' = js_div (to_num (price l)) annualRent';
          onePercentRule = js_ge (to_num monthlyRent) (js_mul (to_num (price l)) (Fin (1 / 100)))
      in l\<lparr>grossYield := Some (js_div (math_round (js_mul grossYield' (Fin 10))) (Fin 10)),
            monthlyCashFlow := Some (math_round monthlyCashFlow'),
            annualRent := Some annualRent',
            grm := Some (js_div (math_round (js_mul grm' (Fin 10))) (Fin 10)),
            meetsOnePercentRule := Some onePercentRule\<rparr>)"

definition calculateInvestmentMetrics :: "analysis \<Rightarrow> listing list \<Rightarrow> listing list" where
  "calculateInvestmentMetrics cfg listings = map (withMetrics cfg) listings"

text \<open>
  Stage 4, \<open>rankAndSelectTopDeals\<close>: a sorted copy, highest gross yield first, cut to
  the number of deals wanted.
\<close>

definition rankAndSelectTopDeals :: "analysis \<Rightarrow> listing list \<Rightarrow> listing list" where
  "rankAndSelectTopDeals cfg listings =
     take (topDealsCount cfg) (array_sort (descending grossYield) listings)"

section \<open>Output\<close>

text \<open>
  A deal is the projection of a listing that is written out, with its rank. \<open>a || b\<close>
  on strings takes \<open>b\<close> when \<open>a\<close> is absent or empty; \<open>null\<close> and \<open>undefined\<close>
  are both \<open>None\<close>.
\<close>

record deal =
  rank :: nat
  deal_id :: string
  address :: "string option"
  deal_city :: "string option"
  deal_state :: "string option"
  deal_zipCode :: "string option"
  deal_price :: jsval
  deal_bedrooms :: jsval
  deal_bathrooms :: jsval
  deal_squareFootage :: jsval
  deal_yearBuilt :: jsval
  deal_propertyType :: "string option"
  estMonthlyRent :: jsval
  estAnnualRent :: jsval
  deal_grossYield :: jsval
  estMonthlyCashFlow :: jsval
  deal_grm :: jsval
  deal_meetsOnePercentRule :: "bool option"
  deal_rentRangeLow :: jsval
  deal_rentRangeHigh :: jsval
  deal_daysOnMarket :: jsval
  deal_listingDate :: "string option"
  deal_primaryPhoto :: "string option"
  deal_listingUrl :: "string option"
  deal_marketId :: "string option"
  deal_marketName :: "string option"

fun truthy_str :: "string option \<Rightarrow> bool" where
  "truthy_str None = False"
| "truthy_str (Some s) = (s \<noteq> [])"

definition or_else :: "string option \<Rightarrow> string option \<Rightarrow> string option" where
  "or_else a b = (if truthy_str a then a else b)"

text \<open>
  A value inside a template literal: \<open>undefined\<close> prints as the word (a \<open>null\<close>,
  which would print as its own word, is not told apart from it).
\<close>

fun template :: "string option \<Rightarrow> string" where
  "template None = ''undefined''"
| "template (Some s) = s"

text \<open>\<open>photos?.[0]\<close>: absent without photos, and on an empty array.\<close>

fun first_photo :: "string list option \<Rightarrow> string option" where
  "first_photo (Some (p # ps)) = Some p"
| "first_photo _ = None"

definition formatDealForOutput :: "listing \<Rightarrow> nat \<Rightarrow> deal" where
  "formatDealForOutput l rank' =
     \<lparr> rank = rank',
       deal_id = template (or_else (listing_id l)
                   (or_else (listingId l)
                      (Some (template (addressLine1 l) @ ''-'' @ template (zipCode l))))),
       address = or_else (formattedAddress l) (addressLine1 l),
       deal_city = city l,
       deal_state = state l,
       deal_zipCode = zipCode l,
       deal_price = price l,
       deal_bedrooms = bedrooms l,
       deal_bathrooms = bathrooms l,
       deal_squareFootage = squareFootage l,
       deal_yearBuilt = yearBuilt l,
       deal_propertyType = propertyType l,
       estMonthlyRent = rentEstimate l,
       estAnnualRent = annualRent l,
       deal_grossYield = grossYield l,
       estMonthlyCashFlow = monthlyCashFlow l,
       deal_grm = grm l,
       deal_meetsOnePercentRule = meetsOnePercentRule l,
       deal_rentRangeLow = rentRangeLow l,
       deal_rentRangeHigh = rentRangeHigh l,
       deal_daysOnMarket = daysOnMarket l,
       deal_listingDate = listingDate l,
       deal_primaryPhoto = or_else (primaryPhoto l) (or_else (first_photo (photos l)) None),
       deal_listingUrl = or_else (listingUrl l) None,
       deal_marketId = marketId l,
       deal_marketName = marketName l \<rparr>"

record market =
  market_id :: string
  market_name :: string
  cities :: "(string \<times> string) list"
  zipCodes :: "string list"

record market_ref =
  ref_id :: string
  ref_name :: string

record summary =
  totalDeals :: nat
  avgGrossYield :: jsnum
  avgPrice :: jsnum
  avgMonthlyRent :: jsnum
  topYield :: jsval
  lowestPrice :: jsnum

record market_output =
  market_of :: market_ref
  lastUpdated :: string
  summary_of :: summary
  deals :: "deal list"

text \<open>\<open>xs.map((x, index) => f(x, index + 1))\<close>, the index counted from \<open>k\<close>.\<close>

fun map_ranked :: "('a \<Rightarrow> nat \<Rightarrow> 'b) \<Rightarrow> nat \<Rightarrow> 'a list \<Rightarrow> 'b list" where
  "map_ranked f k [] = []"
| "map_ranked f k (x # xs) = f x (k + 1) # map_ranked f (k + 1) xs"

text \<open>\<open>xs.reduce((sum, d) => sum + d.key, 0)\<close>.\<close>

definition sum_of :: "('a \<Rightarrow> jsval) \<Rightarrow> 'a list \<Rightarrow> jsnum" where
  "sum_of key xs = foldl (\<lambda>sum d. js_add sum (to_num (key d))) (Fin 0) xs"

text \<open>
  \<open>createMarketOutput\<close>. The time stamp \<open>new Date().toISOString()\<close> is the argument
  \<open>now\<close>.
\<close>

definition createMarketOutput :: "listing list \<Rightarrow> market \<Rightarrow> string \<Rightarrow> market_output" where
  "createMarketOutput ds m now =
     (let formattedDeals = map_ranked formatDealForOutput 0 ds;
          n = Fin (of_nat (length ds));
          avgYield = (if length ds > 0
                      then js_div (math_round (js_mul (js_div (sum_of grossYield ds) n) (Fin 10))) (Fin 10)
                      else Fin 0);
          avgPrice' = (if length ds > 0 then math_round (js_div (sum_of price ds) n) else Fin 0);
          avgRent = (if length ds > 0 then math_round (js_div (sum_of rentEstimate ds) n) else Fin 0)
      in \<lparr> market_of = \<lparr> ref_id = market_id m, ref_name = market_name m \<rparr>,
           lastUpdated = now,
           summary_of =
             \<lparr> totalDeals = length formattedDeals,
               avgGrossYield = avgYield,
               avgPrice = avgPrice',
               avgMonthlyRent = avgRent,
               topYield = (case formattedDeals of [] \<Rightarrow> Some (Fin 0) | d # _ \<Rightarrow> deal_grossYield d),
               lowestPrice = (if length formattedDeals > 0
                              then math_min (map (\<lambda>d. to_num (deal_price d)) formattedDeals)
                              else Fin 0) \<rparr>,
           deals = formattedDeals \<rparr>)"

section \<open>The rent estimate service\<close>

text \<open>
  The body of an answer of the rent estimate endpoint, and the answer itself: a request
  that fails (no connection, a status outside 2xx) throws in the client and is
  \<open>HttpError\<close> here; an answer can come without a body.
\<close>

record rent_data =
  rent :: jsval
  rangeLow :: jsval
  rangeHigh :: jsval

datatype response = HttpError | HttpOk "rent_data option"

record avm_request =
  req_address :: string
  req_propertyType :: string
  req_bedrooms :: jsnum
  req_bathrooms :: jsnum
  req_squareFootage :: jsnum

text \<open>
  The service is outside the program: \<open>net k r\<close> is its answer to the request \<open>r\<close>
  when \<open>k\<close> requests were sent before. The client's state is the module's call counter
  and the number of requests sent so far. The pause between requests and the console are
  not modelled.
\<close>

type_synonym network = "nat \<Rightarrow> avm_request \<Rightarrow> response"

record api_state =
  apiCallCount :: nat
  sent :: nat

text \<open>\<open>x || d\<close> on a number.\<close>

definition num_or :: "jsval \<Rightarrow> jsnum \<Rightarrow> jsnum" where
  "num_or x d = (if truthy x then to_num x else d)"

text \<open>
  \<open>getRentEstimate\<close>: one request; the counter moves on an answer only, and a failure
  is caught and gives \<open>null\<close>.
\<close>

definition getRentEstimate ::
  "network \<Rightarrow> api_state \<Rightarrow> string \<Rightarrow> jsval \<Rightarrow> jsval \<Rightarrow> jsval \<Rightarrow> rent_data option \<times> api_state" where
  "getRentEstimate net st address' bedrooms' bathrooms' squareFootage' =
     (let params = \<lparr> req_address = address', req_propertyType = ''Single Family'',
                      req_bedrooms = num_or bedrooms' (Fin 3),
                      req_bathrooms = num_or bathrooms' (Fin 2),
                      req_squareFootage = num_or squareFootage' (Fin 1500) \<rparr>
      in case net (sent st) params of
           HttpOk data \<Rightarrow> (data, st\<lparr>apiCallCount := apiCallCount st + 1, sent := sent st + 1\<rparr>)
         | HttpError \<Rightarrow> (None, st\<lparr>sent := sent st + 1\<rparr>))"

text \<open>\<open>parts.filter(Boolean).join(', ')\<close>.\<close>

fun join :: "string list \<Rightarrow> string" where
  "join [] = []"
| "join [x] = x"
| "join (x # y # ys) = x @ '', '' @ join (y # ys)"

definition full_address :: "listing \<Rightarrow> string" where
  "full_address property =
     join (map template (filter truthy_str
       [or_else (formattedAddress property) (addressLine1 property),
        city property, state property, zipCode property]))"

text \<open>
  \<open>enrichWithRentEstimates\<close>: the loop over the properties, \<open>enriched\<close> being the array
  it pushes to. A property is pushed when the answer has a body with a truthy rent.
\<close>

fun enrich_loop ::
  "network \<Rightarrow> listing list \<Rightarrow> listing list \<Rightarrow> api_state \<Rightarrow> listing list \<times> api_state" where
  "enrich_loop net [] enriched st = (enriched, st)"
| "enrich_loop net (property # rest) enriched st =
     (let address' = full_address property;
          (rentData, st') = getRentEstimate net st address'
             (bedrooms property) (bathrooms property) (squareFootage property);
          enriched' =
            (case rentData of
               None \<Rightarrow> enriched
             | Some rd \<Rightarrow>
                 if truthy (rent rd)
                 then enriched @ [property\<lparr>rentEstimate := rent rd,
                                           rentRangeLow := rangeLow rd,
                                           rentRangeHigh := rangeHigh rd\<rparr>]
                 else enriched)
      in enrich_loop net rest enriched' st')"

definition enrichWithRentEstimates ::
  "network \<Rightarrow> api_state \<Rightarrow> listing list \<Rightarrow> listing list \<times> api_state" where
  "enrichWithRentEstimates net st properties = enrich_loop net properties [] st"

section \<open>The orchestrator\<close>

text \<open>
  \<open>processMarket\<close>, from the listings that \<open>getListingsForMarket\<close> fetched. No stage
  throws on an array of listings, so the \<open>catch\<close> has no branch here.
\<close>

definition processMarket ::
  "analysis \<Rightarrow> network \<Rightarrow> api_state \<Rightarrow> listing list \<Rightarrow> market \<Rightarrow> string
     \<Rightarrow> market_output \<times> api_state" where
  "processMarket cfg net st rawListings m now =
     (if length rawListings = 0 then (createMarketOutput [] m now, st)
      else
        let filteredListings = applyHeuristicFilter cfg rawListings in
        if length filteredListings = 0 then (createMarketOutput [] m now, st)
        else
          let topCandidates = selectTopCandidates cfg filteredListings;
              (withRentEstimates, st') = enrichWithRentEstimates net st topCandidates in
          if length withRentEstimates = 0 then (createMarketOutput [] m now, st')
          else
            let withMetrics' = calculateInvestmentMetrics cfg withRentEstimates;
                topDeals = rankAndSelectTopDeals cfg withMetrics'
            in (createMarketOutput topDeals m now, st'))"

text \<open>
  The output directory is a map from paths to the documents written there; a document
  is held as the value that was serialised. \<open>path.join\<close> is concatenation (both of its
  uses get the same arguments), and directories are not modelled.
\<close>

type_synonym files = "string \<rightharpoonup> market_output"

definition output_directory :: string where
  "output_directory = ''./data''"

definition output_files :: "string \<rightharpoonup> string" where
  "output_files = map_of
     [(''temple-belton'', ''temple-belton-deals.json''),
      (''harker-heights'', ''harker-heights-deals.json''),
      (''killeen'', ''killeen-deals.json'')]"

definition path_join :: "string \<Rightarrow> string \<Rightarrow> string" where
  "path_join dir file = dir @ ''/'' @ file"

definition writeOutput :: "files \<Rightarrow> market_output \<Rightarrow> string \<Rightarrow> files" where
  "writeOutput fs data filename = fs(path_join output_directory filename \<mapsto> data)"

definition validateOutput :: "files \<Rightarrow> market_output \<Rightarrow> string \<Rightarrow> market_output" where
  "validateOutput fs data existingPath =
     (if length (deals data) = 0
      then (case fs existingPath of
              None \<Rightarrow> data
            | Some existing \<Rightarrow> if length (deals existing) > 0 then existing else data)
      else data)"

text \<open>
  The body of the loop of \<open>main\<close> after \<open>processMarket\<close>: the file of the market is
  looked up, the output validated against it and written. A market without a file name
  makes \<open>path.join\<close> throw.
\<close>

datatype error = TypeError

definition persist :: "files \<Rightarrow> market \<Rightarrow> market_output \<Rightarrow> error + files" where
  "persist fs m output' =
     (case output_files (market_id m) of
        None \<Rightarrow> Inl TypeError
      | Some filename \<Rightarrow>
          let outputPath = path_join output_directory filename;
              validatedOutput = validateOutput fs output' outputPath
          in Inr (writeOutput fs validatedOutput filename))"

section \<open>Vocabulary of the properties\<close>

text \<open>
  A value is a number when it is present and not \<open>NaN\<close>; \<open>ge_on key a b\<close> is
  \<open>a.key >= b.key\<close>.
\<close>

definition number :: "jsval \<Rightarrow> bool" where
  "number v = (to_num v \<noteq> NaN)"

abbreviation ge_on :: "('a \<Rightarrow> jsval) \<Rightarrow> 'a \<Rightarrow> 'a \<Rightarrow> bool" where
  "ge_on key a b \<equiv> js_ge (to_num (key a)) (to_num (key b))"

text \<open>
  The answer that \<open>getRentEstimate\<close> gives for a property when \<open>k\<close> requests were
  sent before, and what the loop of \<open>enrichWithRentEstimates\<close> pushes for a property
  given that answer.
\<close>

definition lookup :: "network \<Rightarrow> nat \<Rightarrow> listing \<Rightarrow> rent_data option" where
  "lookup net k property =
     fst (getRentEstimate net \<lparr> apiCallCount = 0, sent = k \<rparr> (full_address property)
            (bedrooms property) (bathrooms property) (squareFootage property))"

definition accepted :: "rent_data option \<Rightarrow> listing \<Rightarrow> listing option" where
  "accepted rentData property =
     (case rentData of
        None \<Rightarrow> None
      | Some rd \<Rightarrow>
          if truthy (rent rd)
          then Some (property\<lparr>rentEstimate := rent rd, rentRangeLow := rangeLow rd,
                              rentRangeHigh := rangeHigh rd\<rparr>)
          else None)"

section \<open>Example data\<close>

text \<open>
  A listing without any field; the two listings of the worked example of the
  specification, and the first of them once selected and enriched; listings that carry
  a gross yield only, a price and a gross yield, or a price only; the Killeen market of
  the configuration.
\<close>

definition no_fields :: listing where
  "no_fields = \<lparr> listing_id = None, listingId = None, addressLine1 = None,
      formattedAddress = None, city = None, state = None, zipCode = None, price = None,
      bedrooms = None, bathrooms = None, squareFootage = None, yearBuilt = None,
      propertyType = None, daysOnMarket = None, listingDate = None, primaryPhoto = None,
      photos = None, listingUrl = None, marketId = None, marketName = None,
      heuristicYield = None, rentEstimate = None, rentRangeLow = None, rentRangeHigh = None,
      grossYield = None, monthlyCashFlow = None, annualRent = None, grm = None,
      meetsOnePercentRule = None \<rparr>"

definition listingA :: listing where
  "listingA = no_fields\<lparr>price := Some (Fin 200000), squareFootage := Some (Fin 1600)\<rparr>"

definition listingB :: listing where
  "listingB = no_fields\<lparr>price := Some (Fin 300000), squareFootage := Some (Fin 1200)\<rparr>"

definition rentedA :: listing where
  "rentedA = listingA\<lparr>heuristicYield := Some (Fin (48 / 5)), rentEstimate := Some (Fin 1800)\<rparr>"

definition yielding :: "rat \<Rightarrow> listing" where
  "yielding y = no_fields\<lparr>grossYield := Some (Fin y)\<rparr>"

definition tied :: "rat \<Rightarrow> rat \<Rightarrow> listing" where
  "tied p y = no_fields\<lparr>price := Some (Fin p), grossYield := Some (Fin y)\<rparr>"

definition priced :: listing where
  "priced = no_fields\<lparr>price := Some (Fin 100000)\<rparr>"

definition killeen :: market where
  "killeen = \<lparr> market_id = ''killeen'', market_name = ''Killeen'',
      cities = [(''Killeen'', ''TX'')],
      zipCodes = [''76540'', ''76541'', ''76542'', ''76543'', ''76549''] \<rparr>"

text \<open>
  A rent estimate service that values the listing of 1600 square feet at 1800 a month
  and any other at 1500; an answer with a rent of zero; the client before its first
  request; a document with five deals.
\<close>

definition appraiser :: network where
  "appraiser k r =
     (if req_squareFootage r = Fin 1600
      then HttpOk (Some \<lparr> rent = Some (Fin 1800), rangeLow = None, rangeHigh = None \<rparr>)
      else HttpOk (Some \<lparr> rent = Some (Fin 1500), rangeLow = None, rangeHigh = None \<rparr>))"

definition zero_rent :: rent_data where
  "zero_rent = \<lparr> rent = Some (Fin 0), rangeLow = Some (Fin 900), rangeHigh = Some (Fin 1100) \<rparr>"

definition start :: api_state where
  "start = \<lparr> apiCallCount = 0, sent = 0 \<rparr>"

definition five_deals :: market_output where
  "five_deals = createMarketOutput
     [yielding 9, yielding 8, yielding 7, yielding 6, yielding 5] killeen ''2026-11-01T06:00:00.000Z''"

section \<open>Properties\<close>

subsection \<open>Gross yield\<close>

text \<open>
  Claim C4. For a price above zero and an annual rent of at least zero the gross yield is
  the rent divided by the price, times 100, in the operations of the source. For a price
  of zero, or no price, it is 0 whatever the rent, \<open>NaN\<close> and the infinities included.
\<close>

theorem calculateGrossYield_value:
  "(positive pv \<and> js_ge x (Fin 0) \<longrightarrow>
      calculateGrossYield x (Some pv) = js_mul (js_div x pv) (Fin 100))
   \<and> calculateGrossYield r (Some (Fin 0)) = Fin 0
   \<and> calculateGrossYield r None = Fin 0"
proof (intro conjI impI)
  assume "positive pv \<and> js_ge x (Fin 0)"
  then have "truthy (Some pv)" and "pv \<noteq> Fin 0"
    by (cases pv; simp)+
  then show "calculateGrossYield x (Some pv) = js_mul (js_div x pv) (Fin 100)"
    by (simp add: calculateGrossYield_def)
next
  show "calculateGrossYield r (Some (Fin 0)) = Fin 0"
    by (simp add: calculateGrossYield_def)
next
  show "calculateGrossYield r None = Fin 0"
    by (simp add: calculateGrossYield_def)
qed

theorem calculateGrossYield_value_witness:
  "positive (Fin 200000) \<and> js_ge (Fin 21600) (Fin 0)
   \<and> calculateGrossYield (Fin 21600) (Some (Fin 200000))
       = js_mul (js_div (Fin 21600) (Fin 200000)) (Fin 100)
   \<and> calculateGrossYield PInf (Some (Fin 0)) = Fin 0
   \<and> calculateGrossYield NaN None = Fin 0"
proof -
  note r = calculateGrossYield_value [of "Fin 200000" "Fin 21600" PInf]
  note n = calculateGrossYield_value [of "Fin 200000" "Fin 21600" NaN]
  have h: "positive (Fin 200000) \<and> js_ge (Fin 21600) (Fin 0)"
    by simp
  with r have "calculateGrossYield (Fin 21600) (Some (Fin 200000))
      = js_mul (js_div (Fin 21600) (Fin 200000)) (Fin 100)"
    by blast
  moreover have "calculateGrossYield PInf (Some (Fin 0)) = Fin 0"
    using r by blast
  moreover have "calculateGrossYield NaN None = Fin 0"
    using n by blast
  ultimately show ?thesis using h by blast
qed

subsection \<open>The sort\<close>

text \<open>
  On keys that are numbers \<open>>=\<close> is a total preorder and the comparator
  \<open>b.key - a.key\<close> is positive exactly where \<open>a.key >= b.key\<close> fails, so insertion
  keeps a list sorted. Two elements that the comparator does not put apart keep their
  order under insertion.
\<close>

lemma set_insert_sorted: "set (insert_sorted cmp x ys) = insert x (set ys)"
  by (induction ys) auto

lemma set_array_sort: "set (array_sort cmp xs) = set xs"
  by (induction xs) (simp_all add: array_sort_def set_insert_sorted)

lemma js_ge_total: "a \<noteq> NaN \<Longrightarrow> b \<noteq> NaN \<Longrightarrow> js_ge a b \<or> js_ge b a"
  by (cases a; cases b) auto

lemma js_ge_trans: "js_ge a b \<Longrightarrow> js_ge b c \<Longrightarrow> js_ge a c"
  by (cases a; cases b; cases c) auto

lemma positive_sub: "a \<noteq> NaN \<Longrightarrow> b \<noteq> NaN \<Longrightarrow> positive (js_sub b a) \<longleftrightarrow> \<not> js_ge a b"
  by (cases a; cases b) (auto simp: js_sub_def)

lemma sorted_insert_sorted:
  assumes "number (key x)" and "\<forall>y\<in>set ys. number (key y)"
    and "sorted_wrt (ge_on key) ys"
  shows "sorted_wrt (ge_on key) (insert_sorted (descending key) x ys)"
  using assms
proof (induction ys)
  case Nil
  then show ?case by simp
next
  case (Cons y ys)
  have nx: "to_num (key x) \<noteq> NaN" and ny: "to_num (key y) \<noteq> NaN"
    using Cons.prems by (simp_all add: number_def)
  show ?case
  proof (cases "positive (descending key x y)")
    case True
    then have "\<not> js_ge (to_num (key x)) (to_num (key y))"
      using positive_sub [OF nx ny] by (simp add: descending_def)
    then have yx: "js_ge (to_num (key y)) (to_num (key x))"
      using js_ge_total [OF nx ny] by blast
    have "sorted_wrt (ge_on key) (insert_sorted (descending key) x ys)"
      using Cons by simp
    moreover have "\<forall>z\<in>set (insert_sorted (descending key) x ys). ge_on key y z"
      using yx Cons.prems(3) by (auto simp: set_insert_sorted)
    ultimately show ?thesis using True by simp
  next
    case False
    then have xy: "js_ge (to_num (key x)) (to_num (key y))"
      using positive_sub [OF nx ny] by (simp add: descending_def)
    have "\<forall>z\<in>set ys. ge_on key x z"
      using xy Cons.prems(3) by (auto intro: js_ge_trans)
    then show ?thesis using False xy Cons.prems(3) by simp
  qed
qed

lemma sorted_array_sort:
  "\<forall>y\<in>set xs. number (key y) \<Longrightarrow> sorted_wrt (ge_on key) (array_sort (descending key) xs)"
proof (induction xs)
  case Nil
  then show ?case by (simp add: array_sort_def)
next
  case (Cons x xs)
  have "sorted_wrt (ge_on key) (insert_sorted (descending key) x (array_sort (descending key) xs))"
    using Cons by (intro sorted_insert_sorted) (simp_all add: set_array_sort)
  then show ?case by (simp add: array_sort_def)
qed

lemma sorted_wrt_adjacent:
  "sorted_wrt R xs \<Longrightarrow> Suc i < length xs \<Longrightarrow> R (xs ! i) (xs ! Suc i)"
  by (simp add: sorted_wrt_iff_nth_less)

lemma filter_insert_sorted:
  assumes "\<And>y. P x \<Longrightarrow> P y \<Longrightarrow> \<not> positive (cmp x y)"
  shows "filter P (insert_sorted cmp x ys) = (if P x then x # filter P ys else filter P ys)"
  using assms by (induction ys) auto

lemma filter_array_sort:
  assumes "\<And>x y. P x \<Longrightarrow> P y \<Longrightarrow> \<not> positive (cmp x y)"
  shows "filter P (array_sort cmp xs) = filter P xs"
proof (induction xs)
  case Nil
  then show ?case by (simp add: array_sort_def)
next
  case (Cons x xs)
  have "filter P (insert_sorted cmp x (array_sort cmp xs))
        = (if P x then x # filter P (array_sort cmp xs) else filter P (array_sort cmp xs))"
    using assms by (rule filter_insert_sorted)
  then show ?case using Cons by (simp add: array_sort_def)
qed

lemma not_positive_tie: "\<not> positive (js_sub v v)"
  by (cases v) (simp_all add: js_sub_def)

lemma prefix_filter_take: "prefix (filter P (take n xs)) (filter P xs)"
proof -
  have "filter P xs = filter P (take n xs) @ filter P (drop n xs)"
    by (metis append_take_drop_id filter_append)
  then show ?thesis by (simp add: prefix_def)
qed

subsection \<open>The heuristic filter\<close>

text \<open>
  Claim C2. \<open>applyHeuristicFilter\<close> keeps exactly the listings that have a price and a
  square footage and whose heuristic yield \<open>(squareFootage * heuristicRentPerSqft * 12) /
  price * 100\<close>, in the operations of the source, is at least \<open>minYieldThreshold\<close>; it
  keeps them in their order. To have a price is what the source tests, \<open>!listing.price\<close>
  being false: the field is there and is neither \<open>0\<close> nor \<open>NaN\<close>. A listing whose price
  or square footage is missing is not in the output.
\<close>

theorem applyHeuristicFilter_keeps:
  "applyHeuristicFilter cfg ls =
     filter (\<lambda>l. truthy (price l) \<and> truthy (squareFootage l)
        \<and> js_ge (js_mul (js_div (js_mul (js_mul (to_num (squareFootage l))
                    (Fin (heuristicRentPerSqft cfg))) (Fin 12)) (to_num (price l))) (Fin 100))
                 (Fin (minYieldThreshold cfg))) ls
   \<and> (\<not> truthy (price l) \<or> \<not> truthy (squareFootage l) \<longrightarrow>
        l \<notin> set (applyHeuristicFilter cfg ls))"
proof (intro conjI impI)
  show "applyHeuristicFilter cfg ls =
     filter (\<lambda>l. truthy (price l) \<and> truthy (squareFootage l)
        \<and> js_ge (js_mul (js_div (js_mul (js_mul (to_num (squareFootage l))
                    (Fin (heuristicRentPerSqft cfg))) (Fin 12)) (to_num (price l))) (Fin 100))
                 (Fin (minYieldThreshold cfg))) ls"
    unfolding applyHeuristicFilter_def
    by (rule filter_cong) (auto simp: heuristicKeeps_def calculateGrossYield_def Let_def)
next
  assume "\<not> truthy (price l) \<or> \<not> truthy (squareFootage l)"
  then show "l \<notin> set (applyHeuristicFilter cfg ls)"
    by (auto simp: applyHeuristicFilter_def heuristicKeeps_def)
qed

theorem applyHeuristicFilter_keeps_witness:
  "applyHeuristicFilter config [listingA, listingB, no_fields] = [listingA]
   \<and> no_fields \<notin> set (applyHeuristicFilter config [listingA, listingB, no_fields])"
proof -
  let ?ls = "[listingA, listingB, no_fields]"
  note n = applyHeuristicFilter_keeps [of config ?ls no_fields]
  have "applyHeuristicFilter config ?ls = [listingA]"
    using n by (simp add: listingA_def listingB_def no_fields_def config_def
        js_div_def js_div_guarded_def)
  moreover have "\<not> truthy (price no_fields) \<or> \<not> truthy (squareFootage no_fields)"
    by (simp add: no_fields_def)
  with n have "no_fields \<notin> set (applyHeuristicFilter config ?ls)"
    by blast
  ultimately show ?thesis by simp
qed

subsection \<open>Candidate selection\<close>

lemma heuristicKeeps_number:
  "heuristicKeeps cfg l \<Longrightarrow> number (heuristicYield (withHeuristicYield cfg l))"
  by (cases "calculateGrossYield (js_mul (js_mul (to_num (squareFootage l))
        (Fin (heuristicRentPerSqft cfg))) (Fin 12)) (price l)")
     (auto simp: heuristicKeeps_def withHeuristicYield_def number_def Let_def split: if_splits)

lemma sorted_selectTopCandidates:
  assumes "\<forall>l\<in>set ls. number (heuristicYield (withHeuristicYield cfg l))"
  shows "sorted_wrt (ge_on heuristicYield) (selectTopCandidates cfg ls)"
proof -
  have "\<forall>y\<in>set (map (withHeuristicYield cfg) ls). number (heuristicYield y)"
    using assms by simp
  then have "sorted_wrt (ge_on heuristicYield)
      (array_sort (descending heuristicYield) (map (withHeuristicYield cfg) ls))"
    by (rule sorted_array_sort)
  then show ?thesis
    unfolding selectTopCandidates_def by (rule sorted_wrt_take)
qed

lemma two_candidates:
  "selectTopCandidates config [listingB, listingA]
     = [listingA\<lparr>heuristicYield := Some (Fin (48 / 5))\<rparr>,
        listingB\<lparr>heuristicYield := Some (Fin (24 / 5))\<rparr>]"
  by (simp add: selectTopCandidates_def array_sort_def descending_def js_sub_def
      withHeuristicYield_def calculateGrossYield_def js_div_def js_div_guarded_def
      listingA_def listingB_def no_fields_def config_def)

text \<open>
  Claim C3, as amended. \<open>selectTopCandidates\<close> returns at most
  \<open>maxPropertiesToAnalyze\<close> listings, for every input. Where the heuristic yield it
  attaches is a number for every listing of the input, the output is in descending order
  of it: \<open>result[i].heuristicYield >= result[i+1].heuristicYield\<close> for every adjacent
  pair. That is so for every output of \<open>applyHeuristicFilter\<close>, the input the stage
  gets from the orchestrator.
\<close>

theorem selectTopCandidates_capped_sorted:
  "length (selectTopCandidates cfg ls) \<le> maxPropertiesToAnalyze cfg
   \<and> ((\<forall>l\<in>set ls. number (heuristicYield (withHeuristicYield cfg l))) \<longrightarrow>
        (\<forall>i. Suc i < length (selectTopCandidates cfg ls) \<longrightarrow>
           js_ge (to_num (heuristicYield (selectTopCandidates cfg ls ! i)))
                 (to_num (heuristicYield (selectTopCandidates cfg ls ! Suc i)))))
   \<and> (\<forall>i. Suc i < length (selectTopCandidates cfg (applyHeuristicFilter cfg raw)) \<longrightarrow>
         js_ge (to_num (heuristicYield (selectTopCandidates cfg (applyHeuristicFilter cfg raw) ! i)))
               (to_num (heuristicYield (selectTopCandidates cfg (applyHeuristicFilter cfg raw) ! Suc i))))"
proof (intro conjI impI allI)
  show "length (selectTopCandidates cfg ls) \<le> maxPropertiesToAnalyze cfg"
    by (simp add: selectTopCandidates_def)
next
  fix i
  assume "\<forall>l\<in>set ls. number (heuristicYield (withHeuristicYield cfg l))"
    and "Suc i < length (selectTopCandidates cfg ls)"
  then show "js_ge (to_num (heuristicYield (selectTopCandidates cfg ls ! i)))
                   (to_num (heuristicYield (selectTopCandidates cfg ls ! Suc i)))"
    using sorted_wrt_adjacent [OF sorted_selectTopCandidates] by blast
next
  fix i
  let ?kept = "applyHeuristicFilter cfg raw"
  assume i: "Suc i < length (selectTopCandidates cfg ?kept)"
  have "\<forall>l\<in>set ?kept. number (heuristicYield (withHeuristicYield cfg l))"
    by (simp add: applyHeuristicFilter_def heuristicKeeps_number)
  then have "sorted_wrt (ge_on heuristicYield) (selectTopCandidates cfg ?kept)"
    by (rule sorted_selectTopCandidates)
  then show "js_ge (to_num (heuristicYield (selectTopCandidates cfg ?kept ! i)))
                   (to_num (heuristicYield (selectTopCandidates cfg ?kept ! Suc i)))"
    using i by (rule sorted_wrt_adjacent)
qed

theorem selectTopCandidates_capped_sorted_witness:
  "length (selectTopCandidates config [listingB, listingA]) \<le> 50
   \<and> selectTopCandidates config [listingB, listingA]
       = [listingA\<lparr>heuristicYield := Some (Fin (48 / 5))\<rparr>,
          listingB\<lparr>heuristicYield := Some (Fin (24 / 5))\<rparr>]
   \<and> js_ge (to_num (heuristicYield (selectTopCandidates config [listingB, listingA] ! 0)))
           (to_num (heuristicYield (selectTopCandidates config [listingB, listingA] ! Suc 0)))"
proof -
  let ?ls = "[listingB, listingA]"
  note r = selectTopCandidates_capped_sorted [of config ?ls "[]"]
  have nums: "\<forall>l\<in>set ?ls. number (heuristicYield (withHeuristicYield config l))"
    by (simp add: number_def withHeuristicYield_def calculateGrossYield_def js_div_def
        js_div_guarded_def listingA_def listingB_def no_fields_def config_def)
  have len: "Suc 0 < length (selectTopCandidates config ?ls)"
    by (simp add: two_candidates)
  have "js_ge (to_num (heuristicYield (selectTopCandidates config ?ls ! 0)))
              (to_num (heuristicYield (selectTopCandidates config ?ls ! Suc 0)))"
    using r nums len by blast
  moreover have "length (selectTopCandidates config ?ls) \<le> 50"
    using r by (simp add: config_def)
  ultimately show ?thesis using two_candidates by simp
qed

text \<open>
  The claim as it was stated, for every input list, fails: two listings with a price and
  no square footage both get the heuristic yield \<open>NaN\<close>, and \<open>NaN >= NaN\<close> is
  false.
\<close>

theorem selectTopCandidates_unsorted_counterexample:
  "Suc 0 < length (selectTopCandidates config [priced, priced])
   \<and> \<not> js_ge (to_num (heuristicYield (selectTopCandidates config [priced, priced] ! 0)))
             (to_num (heuristicYield (selectTopCandidates config [priced, priced] ! Suc 0)))"
  by (simp add: selectTopCandidates_def array_sort_def descending_def js_sub_def
      withHeuristicYield_def calculateGrossYield_def js_div_def js_div_guarded_def
      priced_def no_fields_def config_def)

subsection \<open>Ranking and ranks\<close>

lemma map_ranked_rank:
  "map rank (map_ranked formatDealForOutput k ds) = [Suc k ..< Suc k + length ds]"
proof (induction ds arbitrary: k)
  case Nil
  then show ?case by simp
next
  case (Cons d ds)
  then show ?case by (simp add: formatDealForOutput_def upt_rec)
qed

lemma three_ranked:
  "rankAndSelectTopDeals (config\<lparr>topDealsCount := 2\<rparr>) [yielding 5, yielding (54 / 5), yielding 7]
     = [yielding (54 / 5), yielding 7]"
  by (simp add: rankAndSelectTopDeals_def array_sort_def descending_def js_sub_def
      yielding_def no_fields_def config_def)

text \<open>
  Claim C1. \<open>rankAndSelectTopDeals\<close> returns at most \<open>topDealsCount\<close> listings; on
  listings that bear metrics (the gross yield of each is a number) the result is in
  descending order of gross yield, \<open>result[i].grossYield >= result[i+1].grossYield\<close>
  for every adjacent pair; and the ranks of the deals of \<open>createMarketOutput\<close> are
  \<open>1, ..., N\<close> in sequence order, \<open>N\<close> the number of deals given.
\<close>

theorem rankAndSelectTopDeals_ranked:
  "length (rankAndSelectTopDeals cfg ls) \<le> topDealsCount cfg
   \<and> ((\<forall>l\<in>set ls. number (grossYield l)) \<longrightarrow>
        (\<forall>i. Suc i < length (rankAndSelectTopDeals cfg ls) \<longrightarrow>
           js_ge (to_num (grossYield (rankAndSelectTopDeals cfg ls ! i)))
                 (to_num (grossYield (rankAndSelectTopDeals cfg ls ! Suc i)))))
   \<and> map rank (deals (createMarketOutput ds m now)) = [1 ..< Suc (length ds)]"
proof (intro conjI impI allI)
  show "length (rankAndSelectTopDeals cfg ls) \<le> topDealsCount cfg"
    by (simp add: rankAndSelectTopDeals_def)
next
  fix i
  assume nums: "\<forall>l\<in>set ls. number (grossYield l)"
    and i: "Suc i < length (rankAndSelectTopDeals cfg ls)"
  have "sorted_wrt (ge_on grossYield) (array_sort (descending grossYield) ls)"
    using nums by (rule sorted_array_sort)
  then have "sorted_wrt (ge_on grossYield) (rankAndSelectTopDeals cfg ls)"
    unfolding rankAndSelectTopDeals_def by (rule sorted_wrt_take)
  then show "js_ge (to_num (grossYield (rankAndSelectTopDeals cfg ls ! i)))
                 (to_num (grossYield (rankAndSelectTopDeals cfg ls ! Suc i)))"
    using i by (rule sorted_wrt_adjacent)
next
  show "map rank (deals (createMarketOutput ds m now)) = [1 ..< Suc (length ds)]"
    using map_ranked_rank [of 0 ds] by (simp add: createMarketOutput_def Let_def)
qed

theorem rankAndSelectTopDeals_ranked_witness:
  "length (rankAndSelectTopDeals (config\<lparr>topDealsCount := 2\<rparr>) [yielding 5, yielding (54 / 5), yielding 7]) \<le> 2
   \<and> rankAndSelectTopDeals (config\<lparr>topDealsCount := 2\<rparr>) [yielding 5, yielding (54 / 5), yielding 7]
       = [yielding (54 / 5), yielding 7]
   \<and> js_ge (to_num (grossYield (yielding (54 / 5)))) (to_num (grossYield (yielding 7)))
   \<and> map rank (deals (createMarketOutput [yielding (54 / 5), yielding 7] killeen ''2026-11-02T06:00:00.000Z'')) = [1, 2]"
proof -
  let ?cfg = "config\<lparr>topDealsCount := 2\<rparr>"
  let ?ls = "[yielding 5, yielding (54 / 5), yielding 7]"
  note r = rankAndSelectTopDeals_ranked [of ?cfg ?ls "[yielding (54 / 5), yielding 7]" killeen
      "''2026-11-02T06:00:00.000Z''"]
  have nums: "\<forall>l\<in>set ?ls. number (grossYield l)"
    by (simp add: number_def yielding_def no_fields_def)
  have "js_ge (to_num (grossYield (rankAndSelectTopDeals ?cfg ?ls ! 0)))
              (to_num (grossYield (rankAndSelectTopDeals ?cfg ?ls ! Suc 0)))"
    using r nums by (simp add: three_ranked)
  moreover have "map rank (deals (createMarketOutput [yielding (54 / 5), yielding 7] killeen
      ''2026-11-02T06:00:00.000Z'')) = [1, 2]"
    using r by (simp add: upt_rec)
  moreover have "length (rankAndSelectTopDeals ?cfg ?ls) \<le> 2"
    using r by (simp add: config_def)
  ultimately show ?thesis by (simp add: three_ranked)
qed

lemma four_ranked:
  "rankAndSelectTopDeals (config\<lparr>topDealsCount := 3\<rparr>) [tied 1 7, tied 2 9, tied 3 7, tied 4 7]
     = [tied 2 9, tied 1 7, tied 3 7]"
  by (simp add: rankAndSelectTopDeals_def array_sort_def descending_def js_sub_def
      tied_def no_fields_def config_def)

text \<open>
  Claim C9. On listings that bear metrics (the gross yield of each is a number, so that
  the comparator is a consistent order), the listings of any one gross yield come out of
  \<open>rankAndSelectTopDeals\<close> in the order they went in (the cut to \<open>topDealsCount\<close> may
  drop the last of them): the sort is stable and the comparator has no second key.
\<close>

theorem rankAndSelectTopDeals_stable:
  assumes "\<forall>l\<in>set ls. number (grossYield l)"
  shows "prefix (filter (\<lambda>l. grossYield l = g) (rankAndSelectTopDeals cfg ls))
                (filter (\<lambda>l. grossYield l = g) ls)"
proof -
  have "filter (\<lambda>l. grossYield l = g) (array_sort (descending grossYield) ls)
        = filter (\<lambda>l. grossYield l = g) ls"
    by (rule filter_array_sort) (simp add: descending_def not_positive_tie)
  then show ?thesis
    unfolding rankAndSelectTopDeals_def
    using prefix_filter_take [of "\<lambda>l. grossYield l = g" "topDealsCount cfg"
        "array_sort (descending grossYield) ls"]
    by simp
qed

theorem rankAndSelectTopDeals_stable_witness:
  "filter (\<lambda>l. grossYield l = Some (Fin 7))
       (rankAndSelectTopDeals (config\<lparr>topDealsCount := 3\<rparr>)
          [tied 1 7, tied 2 9, tied 3 7, tied 4 7])
     = [tied 1 7, tied 3 7]
   \<and> filter (\<lambda>l. grossYield l = Some (Fin 7)) [tied 1 7, tied 2 9, tied 3 7, tied 4 7]
     = [tied 1 7, tied 3 7, tied 4 7]
   \<and> prefix (filter (\<lambda>l. grossYield l = Some (Fin 7))
              (rankAndSelectTopDeals (config\<lparr>topDealsCount := 3\<rparr>)
                 [tied 1 7, tied 2 9, tied 3 7, tied 4 7]))
            (filter (\<lambda>l. grossYield l = Some (Fin 7)) [tied 1 7, tied 2 9, tied 3 7, tied 4 7])"
proof -
  let ?ls = "[tied 1 7, tied 2 9, tied 3 7, tied 4 7]"
  have nums: "\<forall>l\<in>set ?ls. number (grossYield l)"
    by (simp add: number_def tied_def no_fields_def)
  note p = rankAndSelectTopDeals_stable [OF nums, of "Some (Fin 7)" "config\<lparr>topDealsCount := 3\<rparr>"]
  have "filter (\<lambda>l. grossYield l = Some (Fin 7))
      (rankAndSelectTopDeals (config\<lparr>topDealsCount := 3\<rparr>) ?ls) = [tied 1 7, tied 3 7]"
    unfolding four_ranked by (simp add: tied_def no_fields_def)
  moreover have "filter (\<lambda>l. grossYield l = Some (Fin 7)) ?ls = [tied 1 7, tied 3 7, tied 4 7]"
    by (simp add: tied_def no_fields_def)
  ultimately show ?thesis using p by simp
qed

subsection \<open>The empty output\<close>

text \<open>
  Claim C6. For every market, \<open>createMarketOutput\<close> of no deals is the output with no
  deal, \<open>totalDeals\<close> 0 and every other field of the summary 0. The function has no
  failing branch.
\<close>

theorem createMarketOutput_empty:
  "createMarketOutput [] m now =
     \<lparr> market_of = \<lparr> ref_id = market_id m, ref_name = market_name m \<rparr>,
       lastUpdated = now,
       summary_of = \<lparr> totalDeals = 0, avgGrossYield = Fin 0, avgPrice = Fin 0,
                      avgMonthlyRent = Fin 0, topYield = Some (Fin 0), lowestPrice = Fin 0 \<rparr>,
       deals = [] \<rparr>"
  by (simp add: createMarketOutput_def)

subsection \<open>Enrichment\<close>

lemma getRentEstimate_fst:
  "fst (getRentEstimate net st a b c d) = fst (getRentEstimate net \<lparr> apiCallCount = 0, sent = sent st \<rparr> a b c d)"
  by (simp add: getRentEstimate_def Let_def split: response.splits)

lemma getRentEstimate_sent:
  "sent (snd (getRentEstimate net st a b c d)) = Suc (sent st)"
  by (simp add: getRentEstimate_def Let_def split: response.splits)

lemma enrich_loop_eq:
  "fst (enrich_loop net ps enriched st)
     = enriched @ List.map_filter (\<lambda>(k, p). accepted (lookup net k p) p) (enumerate (sent st) ps)
   \<and> sent (snd (enrich_loop net ps enriched st)) = sent st + length ps"
proof (induction ps arbitrary: enriched st)
  case Nil
  then show ?case by simp
next
  case (Cons p ps)
  obtain rentData st' where g: "getRentEstimate net st (full_address p)
      (bedrooms p) (bathrooms p) (squareFootage p) = (rentData, st')"
    by (cases "getRentEstimate net st (full_address p) (bedrooms p) (bathrooms p) (squareFootage p)")
  have rd: "rentData = lookup net (sent st) p"
    using getRentEstimate_fst [of net st "full_address p" "bedrooms p" "bathrooms p" "squareFootage p"] g
    by (simp add: lookup_def)
  have s': "sent st' = Suc (sent st)"
    using getRentEstimate_sent [of net st "full_address p" "bedrooms p" "bathrooms p" "squareFootage p"] g
    by simp
  show ?case
    using Cons.IH s' g rd
    by (cases "lookup net (sent st) p")
       (simp_all add: accepted_def)
qed

lemma map_filter_member:
  "l \<in> set (List.map_filter f xs) \<Longrightarrow> \<exists>x\<in>set xs. f x = Some l"
  by (auto simp: map_filter_def)

lemma enriched_truthy:
  "l \<in> set (fst (enrichWithRentEstimates net st ps)) \<Longrightarrow> truthy (rentEstimate l)"
proof -
  assume "l \<in> set (fst (enrichWithRentEstimates net st ps))"
  then obtain k p where "accepted (lookup net k p) p = Some l"
    using enrich_loop_eq [of net ps "[]" st]
      map_filter_member [of l "\<lambda>(k, p). accepted (lookup net k p) p" "enumerate (sent st) ps"]
    by (auto simp: enrichWithRentEstimates_def)
  then show ?thesis
    by (auto simp: accepted_def split: option.splits if_splits)
qed

text \<open>
  Claim C8, as amended. \<open>enrichWithRentEstimates\<close> sends one request for each
  candidate, in order, and none again. Its output holds, in order, the candidates whose
  answer has a body with a truthy rent (a number other than \<open>0\<close> and \<open>NaN\<close>); a
  failed request and an answer without a body drop the candidate. Each record of the
  output is the candidate with the rent, the low and the high of the range of its
  answer.
\<close>

theorem enrichWithRentEstimates_accepts:
  "fst (enrichWithRentEstimates net st ps)
     = List.map_filter (\<lambda>(k, p). accepted (lookup net k p) p) (enumerate (sent st) ps)
   \<and> sent (snd (enrichWithRentEstimates net st ps)) = sent st + length ps"
  using enrich_loop_eq [of net ps "[]" st] by (simp add: enrichWithRentEstimates_def)

text \<open>
  The claim as it was stated, that a numeric rent field being present is enough, fails:
  an answer whose rent is \<open>0\<close> has a numeric rent, and its candidate is dropped.
\<close>

theorem enrichWithRentEstimates_zero_rent_counterexample:
  "lookup (\<lambda>k r. HttpOk (Some zero_rent)) 0 listingA = Some zero_rent
   \<and> number (rent zero_rent)
   \<and> fst (enrichWithRentEstimates (\<lambda>k r. HttpOk (Some zero_rent)) start [listingA]) = []"
  by (simp add: lookup_def getRentEstimate_def enrichWithRentEstimates_def zero_rent_def
      number_def start_def)

subsection \<open>The worked example\<close>

lemma scenario_filter: "applyHeuristicFilter config [listingA, listingB] = [listingA]"
  by (simp add: applyHeuristicFilter_def heuristicKeeps_def calculateGrossYield_def
      js_div_def js_div_guarded_def listingA_def listingB_def no_fields_def config_def)

lemma scenario_candidates:
  "selectTopCandidates config [listingA] = [listingA\<lparr>heuristicYield := Some (Fin (48 / 5))\<rparr>]"
  by (simp add: selectTopCandidates_def array_sort_def withHeuristicYield_def
      calculateGrossYield_def js_div_def js_div_guarded_def listingA_def no_fields_def config_def)

lemma scenario_enriched:
  "enrichWithRentEstimates appraiser start [listingA\<lparr>heuristicYield := Some (Fin (48 / 5))\<rparr>]
     = ([rentedA], \<lparr> apiCallCount = 1, sent = 1 \<rparr>)"
  by (simp add: enrichWithRentEstimates_def getRentEstimate_def appraiser_def num_or_def
      start_def rentedA_def listingA_def no_fields_def)

lemma scenario_metrics:
  "calculateInvestmentMetrics config [rentedA]
     = [rentedA\<lparr>grossYield := Some (Fin (54 / 5)), monthlyCashFlow := Some (Fin 1076),
                annualRent := Some (Fin 21600), grm := Some (Fin (93 / 10)),
                meetsOnePercentRule := Some False\<rparr>]"
  by (simp add: calculateInvestmentMetrics_def withMetrics_def calculateGrossYield_def
      calculateMonthlyCashFlow_def js_sub_def js_div_def js_div_guarded_def
      floor_unique rentedA_def listingA_def no_fields_def config_def)

lemma scenario_ranked: "rankAndSelectTopDeals config [l] = [l]"
  by (simp add: rankAndSelectTopDeals_def array_sort_def config_def)

text \<open>
  Claim C5. With the configured constants (rent per square foot 1, threshold 6, ten
  deals), listing A (200000, 1600 square feet, valued at 1800 a month) and listing B
  (300000, 1200 square feet, valued at 1500): the heuristic yields are 9.6 and 4.8, the
  filter keeps A and drops B; the metrics of A are a gross yield of 10.8, a multiplier of
  9.3 and a one percent rule that is not met; the output of the market has one deal, of
  rank 1 and gross yield 10.8.
\<close>

theorem two_listing_scenario:
  "heuristicYield (withHeuristicYield config listingA) = Some (Fin (48 / 5))
   \<and> heuristicYield (withHeuristicYield config listingB) = Some (Fin (24 / 5))
   \<and> applyHeuristicFilter config [listingA] = [listingA]
   \<and> applyHeuristicFilter config [listingB] = []
   \<and> applyHeuristicFilter config [listingA, listingB] = [listingA]
   \<and> map grossYield (calculateInvestmentMetrics config [rentedA]) = [Some (Fin (54 / 5))]
   \<and> map grm (calculateInvestmentMetrics config [rentedA]) = [Some (Fin (93 / 10))]
   \<and> map meetsOnePercentRule (calculateInvestmentMetrics config [rentedA]) = [Some False]
   \<and> map (\<lambda>d. (rank d, deal_grossYield d, deal_grm d, deal_meetsOnePercentRule d))
        (deals (fst (processMarket config appraiser start [listingA, listingB] m now)))
       = [(1, Some (Fin (54 / 5)), Some (Fin (93 / 10)), Some False)]
   \<and> totalDeals (summary_of (fst (processMarket config appraiser start [listingA, listingB] m now))) = 1"
proof -
  have "heuristicYield (withHeuristicYield config listingA) = Some (Fin (48 / 5))"
    and "heuristicYield (withHeuristicYield config listingB) = Some (Fin (24 / 5))"
    and "applyHeuristicFilter config [listingA] = [listingA]"
    and "applyHeuristicFilter config [listingB] = []"
    by (simp_all add: withHeuristicYield_def applyHeuristicFilter_def heuristicKeeps_def
        calculateGrossYield_def
        js_div_def js_div_guarded_def listingA_def listingB_def no_fields_def config_def)
  moreover have "fst (processMarket config appraiser start [listingA, listingB] m now)
      = createMarketOutput [rentedA\<lparr>grossYield := Some (Fin (54 / 5)),
          monthlyCashFlow := Some (Fin 1076), annualRent := Some (Fin 21600),
          grm := Some (Fin (93 / 10)), meetsOnePercentRule := Some False\<rparr>] m now"
    by (simp add: processMarket_def scenario_filter scenario_candidates scenario_enriched
        scenario_metrics scenario_ranked)
  ultimately show ?thesis
    by (simp add: scenario_filter scenario_metrics createMarketOutput_def formatDealForOutput_def
        Let_def)
qed

subsection \<open>The divisor of the rent multiplier\<close>

lemma annual_nonzero: "truthy v \<Longrightarrow> js_mul (to_num v) (Fin 12) \<noteq> Fin 0"
  by (cases v; cases "to_num v") (auto simp: signed_inf_def)

text \<open>
  Claim C10. Where the rent estimate of every listing is a number other than zero, the
  divisor \<open>rentEstimate * 12\<close> of the rent multiplier in
  \<open>calculateInvestmentMetrics\<close> is not zero: the division is the guarded one, never the
  branch of the zero divisor. Every listing that \<open>enrichWithRentEstimates\<close> returns has
  such a rent estimate.
\<close>

theorem grm_divisor_nonzero:
  "((\<forall>l\<in>set ls. truthy (rentEstimate l)) \<longrightarrow>
      (\<forall>m\<in>set (calculateInvestmentMetrics cfg ls).
         annualRent m = Some (js_mul (to_num (rentEstimate m)) (Fin 12))
         \<and> to_num (annualRent m) \<noteq> Fin 0
         \<and> js_div_guarded (to_num (price m)) (to_num (annualRent m))
             = Some (js_quot (to_num (price m)) (to_num (annualRent m)))
         \<and> grm m = Some (js_div (math_round (js_mul
                 (js_quot (to_num (price m)) (to_num (annualRent m))) (Fin 10))) (Fin 10))))
   \<and> (\<forall>l\<in>set (fst (enrichWithRentEstimates net st ps)). truthy (rentEstimate l))"
proof (intro conjI impI ballI)
  fix m
  assume rents: "\<forall>l\<in>set ls. truthy (rentEstimate l)"
    and "m \<in> set (calculateInvestmentMetrics cfg ls)"
  then obtain l where l: "l \<in> set ls" and m: "m = withMetrics cfg l"
    by (auto simp: calculateInvestmentMetrics_def)
  have nz: "js_mul (to_num (rentEstimate l)) (Fin 12) \<noteq> Fin 0"
    using rents l by (simp add: annual_nonzero)
  show "annualRent m = Some (js_mul (to_num (rentEstimate m)) (Fin 12))"
    by (simp add: m withMetrics_def Let_def)
  show "to_num (annualRent m) \<noteq> Fin 0"
    using nz by (simp add: m withMetrics_def Let_def)
  show "js_div_guarded (to_num (price m)) (to_num (annualRent m))
          = Some (js_quot (to_num (price m)) (to_num (annualRent m)))"
    using nz by (simp add: m withMetrics_def Let_def js_div_guarded_def)
  show "grm m = Some (js_div (math_round (js_mul
          (js_quot (to_num (price m)) (to_num (annualRent m))) (Fin 10))) (Fin 10))"
    using nz
    by (simp add: m withMetrics_def Let_def js_div_def [of "to_num (price l)"] js_div_guarded_def)
next
  fix l
  assume "l \<in> set (fst (enrichWithRentEstimates net st ps))"
  then show "truthy (rentEstimate l)"
    by (rule enriched_truthy)
qed

theorem grm_divisor_nonzero_witness:
  "truthy (rentEstimate rentedA)
   \<and> map annualRent (calculateInvestmentMetrics config [rentedA]) = [Some (Fin 21600)]
   \<and> js_div_guarded (Fin 200000) (Fin 21600) = Some (Fin (250 / 27))
   \<and> map grm (calculateInvestmentMetrics config [rentedA]) = [Some (Fin (93 / 10))]
   \<and> fst (enrichWithRentEstimates appraiser start [listingA]) = [listingA\<lparr>rentEstimate := Some (Fin 1800)\<rparr>]
   \<and> truthy (rentEstimate (listingA\<lparr>rentEstimate := Some (Fin 1800)\<rparr>))"
proof -
  note r = grm_divisor_nonzero [of "[rentedA]" config appraiser start "[listingA]"]
  have t: "\<forall>l\<in>set [rentedA]. truthy (rentEstimate l)"
    by (simp add: rentedA_def)
  have e: "fst (enrichWithRentEstimates appraiser start [listingA])
      = [listingA\<lparr>rentEstimate := Some (Fin 1800)\<rparr>]"
    by (simp add: enrichWithRentEstimates_def getRentEstimate_def appraiser_def num_or_def
        start_def listingA_def no_fields_def)
  have "\<forall>l\<in>set (fst (enrichWithRentEstimates appraiser start [listingA])). truthy (rentEstimate l)"
    using r by blast
  then have "truthy (rentEstimate (listingA\<lparr>rentEstimate := Some (Fin 1800)\<rparr>))"
    unfolding e by simp
  moreover have "\<forall>m\<in>set (calculateInvestmentMetrics config [rentedA]).
      js_div_guarded (to_num (price m)) (to_num (annualRent m))
        = Some (js_quot (to_num (price m)) (to_num (annualRent m)))"
    using r t by blast
  then have "js_div_guarded (Fin 200000) (Fin 21600) = Some (Fin (250 / 27))"
    unfolding scenario_metrics by (simp add: rentedA_def listingA_def no_fields_def)
  ultimately show ?thesis
    using t by (simp add: scenario_metrics e)
qed

subsection \<open>The safeguard of the orchestrator\<close>

lemma persist_existing:
  assumes "output_files (market_id m) = Some filename"
    and "fs (path_join output_directory filename) = Some existing"
    and "deals existing \<noteq> []" and "deals output' = []"
  shows "persist fs m output' = Inr fs"
proof -
  have "validateOutput fs output' (path_join output_directory filename) = existing"
    using assms by (simp add: validateOutput_def)
  then have "persist fs m output' = Inr (fs(path_join output_directory filename \<mapsto> existing))"
    using assms(1) by (simp add: persist_def writeOutput_def)
  then show ?thesis using assms(2) by (simp add: map_upd_triv)
qed

text \<open>
  Claim C7. When the new output of a market has no deal and the file of the market holds
  a document with deals, the file holds the same document after the output was validated
  and written; no file changes.
\<close>

theorem persist_keeps_prior_deals:
  assumes "output_files (market_id m) = Some filename"
    and "fs (path_join output_directory filename) = Some existing"
    and "deals existing \<noteq> []" and "deals output' = []"
  shows "\<exists>fs'. persist fs m output' = Inr fs'
           \<and> fs' (path_join output_directory filename) = Some existing
           \<and> fs' = fs"
  using assms persist_existing by blast

theorem persist_keeps_prior_deals_witness:
  "length (deals five_deals) = 5
   \<and> deals (createMarketOutput [] killeen ''2026-11-02T06:00:00.000Z'') = []
   \<and> persist [''./data/killeen-deals.json'' \<mapsto> five_deals] killeen
        (createMarketOutput [] killeen ''2026-11-02T06:00:00.000Z'')
       = Inr [''./data/killeen-deals.json'' \<mapsto> five_deals]"
proof -
  let ?fs = "[''./data/killeen-deals.json'' \<mapsto> five_deals]"
  let ?new = "createMarketOutput [] killeen ''2026-11-02T06:00:00.000Z''"
  have f: "output_files (market_id killeen) = Some ''killeen-deals.json''"
    by (simp add: output_files_def killeen_def)
  have e: "?fs (path_join output_directory ''killeen-deals.json'') = Some five_deals"
    by (simp add: path_join_def output_directory_def)
  have n: "length (deals five_deals) = 5"
    by (simp add: five_deals_def createMarketOutput_def Let_def)
  then have ne: "deals five_deals \<noteq> []" by auto
  have z: "deals ?new = []"
    by (simp add: createMarketOutput_def)
  from persist_keeps_prior_deals [of killeen "''killeen-deals.json''" ?fs five_deals ?new,
      OF f e ne z]
  have "persist ?fs killeen ?new = Inr ?fs" by auto
  with n z show ?thesis by simp
qed

end
